theory Spec2Isabelle
  imports Main
begin

section \<open>Python values used by the handler\<close>

text \<open>
  The server is \<^verbatim>\<open>src/server.py\<close>: a subclass of the standard library's
  \<^verbatim>\<open>SimpleHTTPRequestHandler\<close> that overrides \<^verbatim>\<open>do_GET\<close>, \<^verbatim>\<open>end_headers\<close> and
  \<^verbatim>\<open>do_OPTIONS\<close> and adds \<^verbatim>\<open>handle_range_request\<close>.

  Header values reach the handler decoded as ISO-8859-1, one character per byte, so a
  Python header string is a \<^typ>\<open>string\<close> here (a list of 8-bit characters), and a
  \<^verbatim>\<open>bytes\<close> object is a list of the same 8-bit values. Python integers are unbounded:
  they are \<^typ>\<open>int\<close>.
\<close>

type_synonym bytes = "char list"

text \<open>
  The exceptions that the body of \<^verbatim>\<open>handle_range_request\<close> can raise. All of them are
  subclasses of \<^verbatim>\<open>Exception\<close>, so all are caught by its \<^verbatim>\<open>except Exception\<close>.
  \<^item> \<open>InvalidLiteral s\<close>: the \<^verbatim>\<open>ValueError\<close> of \<^verbatim>\<open>int(s)\<close> on a string that is no integer literal;
  \<^item> \<open>DigitLimit n\<close>: the \<^verbatim>\<open>ValueError\<close> of \<^verbatim>\<open>int(s)\<close> on a literal of \<open>n\<close> digits, more than
    the interpreter's limit;
  \<^item> \<open>UnpackError\<close>: the \<^verbatim>\<open>ValueError\<close> of unpacking a list that has not two elements;
  \<^item> \<open>AttributeError\<close>: a method called on \<^verbatim>\<open>None\<close>;
  \<^item> \<open>OSError p\<close>: a failed file system call on the path \<open>p\<close>.
\<close>

datatype py_exception =
    InvalidLiteral string
  | DigitLimit nat
  | UnpackError
  | AttributeError
  | OSError string

subsection \<open>\<^verbatim>\<open>str.startswith\<close>, \<^verbatim>\<open>str.split(sep, 1)\<close>\<close>

definition startswith :: "string \<Rightarrow> string \<Rightarrow> bool" where
  "startswith s pre = (take (length pre) s = pre)"

text \<open>
  \<^verbatim>\<open>s.split(sep, 1)\<close> for a one-character separator: at most one split, at the first
  occurrence; a string without the separator gives the one-element list \<^verbatim>\<open>[s]\<close>.
\<close>

definition split_once :: "char \<Rightarrow> string \<Rightarrow> string list" where
  "split_once sep s =
     (if sep \<in> set s
      then [takeWhile (\<lambda>c. c \<noteq> sep) s, tl (dropWhile (\<lambda>c. c \<noteq> sep) s)]
      else [s])"

subsection \<open>\<^verbatim>\<open>int(s)\<close> on a string\<close>

text \<open>
  CPython converts a string to an integer in two steps. First the string is brought to
  ASCII (\<^verbatim>\<open>_PyUnicode_TransformDecimalAndSpaceToASCII\<close>): an ASCII string is taken as it
  is; otherwise every character from code 127 on becomes a space when it is Unicode white
  space, its digit when it is a Unicode decimal digit, and \<^verbatim>\<open>?\<close> otherwise, where the
  string is cut. Among the characters 127 to 255 only \<^verbatim>\<open>\x85\<close> and \<^verbatim>\<open>\xa0\<close> are white space
  and none is a decimal digit.
\<close>

definition unicode_isspace_high :: "char \<Rightarrow> bool" where
  "unicode_isspace_high c = (of_char c = (0x85::nat) \<or> of_char c = (0xA0::nat))"

fun transform_to_ascii :: "string \<Rightarrow> string" where
  "transform_to_ascii [] = []"
| "transform_to_ascii (c # cs) =
     (if of_char c < (127::nat) then c # transform_to_ascii cs
      else if unicode_isspace_high c then CHR '' '' # transform_to_ascii cs
      else [CHR ''?''])"

definition to_ascii :: "string \<Rightarrow> string" where
  "to_ascii s = (if list_all (\<lambda>c. of_char c < (128::nat)) s then s else transform_to_ascii s)"

text \<open>
  Then \<^verbatim>\<open>PyLong_FromString\<close> reads, in base 10: white space (\<^verbatim>\<open>Py_ISSPACE\<close>: tab, line
  feed, vertical tab, form feed, carriage return, space), an optional sign, digits with
  single underscores between them, and white space up to the end of the string. A literal
  of more than \<^verbatim>\<open>sys.int_info.default_max_str_digits\<close> = 4300 digits is refused.
\<close>

definition py_isspace :: "char \<Rightarrow> bool" where
  "py_isspace c = ((9::nat) \<le> of_char c \<and> of_char c \<le> (13::nat) \<or> c = CHR '' '')"

definition py_isdigit :: "char \<Rightarrow> bool" where
  "py_isdigit c = ((48::nat) \<le> of_char c \<and> of_char c \<le> (57::nat))"

definition digit_value :: "char \<Rightarrow> int" where
  "digit_value c = int (of_char c) - 48"

definition digits_value :: "string \<Rightarrow> int" where
  "digits_value ds = foldl (\<lambda>acc c. 10 * acc + digit_value c) 0 ds"

fun double_underscore :: "string \<Rightarrow> bool" where
  "double_underscore (a # b # cs) =
     ((a = CHR ''_'' \<and> b = CHR ''_'') \<or> double_underscore (b # cs))"
| "double_underscore _ = False"

definition max_str_digits :: nat where
  "max_str_digits = 4300"

definition py_int :: "string \<Rightarrow> py_exception + int" where
  "py_int s =
     (let t = dropWhile py_isspace (to_ascii s);
          (sign, u) = (case t of
                         c # r \<Rightarrow> if c = CHR ''+'' then (1::int, r)
                                  else if c = CHR ''-'' then (- 1, r)
                                  else (1, t)
                       | [] \<Rightarrow> (1, t));
          lit = takeWhile (\<lambda>c. py_isdigit c \<or> c = CHR ''_'') u;
          rest = dropWhile (\<lambda>c. py_isdigit c \<or> c = CHR ''_'') u;
          ds = filter py_isdigit lit
      in if lit = [] \<or> hd lit = CHR ''_'' \<or> last lit = CHR ''_'' \<or> double_underscore lit
            \<or> \<not> list_all py_isspace rest
         then Inl (InvalidLiteral s)
         else if max_str_digits < length ds then Inl (DigitLimit (length ds))
         else Inr (sign * digits_value ds))"

subsection \<open>\<^verbatim>\<open>str(n)\<close> on an integer\<close>

definition digit_char :: "nat \<Rightarrow> char" where
  "digit_char d = char_of (48 + d)"

fun str_nat :: "nat \<Rightarrow> string" where
  "str_nat n = (if n < 10 then [digit_char n] else str_nat (n div 10) @ [digit_char (n mod 10)])"

declare str_nat.simps [simp del]

definition py_str :: "int \<Rightarrow> string" where
  "py_str i = (if i < 0 then CHR ''-'' # str_nat (nat (- i)) else str_nat (nat i))"

section \<open>The file system and the effects of a request\<close>

text \<open>
  A request is handled synchronously against the file system as it is at that moment: a
  map from file system paths to what is there, a regular file with its bytes or a
  directory with the size that \<^verbatim>\<open>stat\<close> reports for it.
\<close>

datatype node = RegularFile bytes | Directory nat

type_synonym filesystem = "string \<Rightarrow> node option"

definition path_exists :: "filesystem \<Rightarrow> string \<Rightarrow> bool" where
  "path_exists fs p = (fs p \<noteq> None)"

definition path_isfile :: "filesystem \<Rightarrow> string \<Rightarrow> bool" where
  "path_isfile fs p = (case fs p of Some (RegularFile _) \<Rightarrow> True | _ \<Rightarrow> False)"

text \<open>
  \<^verbatim>\<open>os.path.getsize\<close> raises \<^verbatim>\<open>OSError\<close> on a path that does not exist, and
  \<^verbatim>\<open>open(p, 'rb')\<close> on one that does not exist or is a directory. The handler calls both
  only on a path that it found to be a regular file.
\<close>

definition path_getsize :: "filesystem \<Rightarrow> string \<Rightarrow> py_exception + int" where
  "path_getsize fs p =
     (case fs p of Some (RegularFile content) \<Rightarrow> Inr (int (length content))
                 | Some (Directory st_size) \<Rightarrow> Inr (int st_size)
                 | None \<Rightarrow> Inl (OSError p))"

definition open_rb :: "filesystem \<Rightarrow> string \<Rightarrow> py_exception + bytes" where
  "open_rb fs p =
     (case fs p of Some (RegularFile content) \<Rightarrow> Inr content
                 | _ \<Rightarrow> Inl (OSError p))"

text \<open>
  \<^verbatim>\<open>f.seek(start); f.read(n)\<close> on a file opened for binary reading, for \<open>start \<ge> 0\<close>
  and \<open>n \<ge> 0\<close>: at most \<open>n\<close> bytes from offset \<open>start\<close>, fewer at the end of the file.
\<close>

definition seek_read :: "bytes \<Rightarrow> int \<Rightarrow> int \<Rightarrow> bytes" where
  "seek_read content start n = take (nat n) (drop (nat start) content)"

text \<open>
  What a request does besides answering: its calls to the file system, in order, and what
  the handler prints on the console.
\<close>

datatype event =
    Path_exists string
  | Path_isfile string
  | Path_getsize string
  | File_open string
  | File_seek int
  | File_read int
  | File_close
  | Console_print string

definition reads_file :: "event \<Rightarrow> bool" where
  "reads_file e = (case e of File_open _ \<Rightarrow> True | File_seek _ \<Rightarrow> True
                           | File_read _ \<Rightarrow> True | _ \<Rightarrow> False)"

section \<open>Requests, responses and the library's response writer\<close>

text \<open>
  Of a request the handler reads \<^verbatim>\<open>self.path\<close> and \<^verbatim>\<open>self.headers.get('Range')\<close>, which
  is \<^verbatim>\<open>None\<close> when the request has no such header. Requests are HTTP/1.x requests (for
  HTTP/0.9 the library writes neither status line nor headers).
\<close>

record request =
  path :: string
  range_header :: "string option"

record response =
  status :: nat
  reason :: string
  headers :: "(string \<times> string) list"
  body :: bytes

text \<open>
  What the handler takes from the standard library and from the moment of the request:
  the values of the \<^verbatim>\<open>Server\<close> and \<^verbatim>\<open>Date\<close> headers, \<^verbatim>\<open>translate_path\<close>, the table
  \<^verbatim>\<open>responses\<close> of short and long messages per status code, the HTML page of an error
  (\<^verbatim>\<open>error_message_format\<close> filled with code, escaped message and escaped explanation,
  encoded as UTF-8), \<^verbatim>\<open>str(e)\<close> for an exception, and the inherited \<^verbatim>\<open>do_GET\<close> of
  \<^verbatim>\<open>SimpleHTTPRequestHandler\<close>, which is given the \<^verbatim>\<open>end_headers\<close> it dispatches to.
\<close>

record environment =
  version_string :: string
  date_time_string :: string
  translate_path :: "string \<Rightarrow> string"
  responses :: "nat \<Rightarrow> (string \<times> string) option"
  error_page :: "nat \<Rightarrow> string \<Rightarrow> string \<Rightarrow> bytes"
  exception_str :: "py_exception \<Rightarrow> string"
  super_do_GET :: "(response \<Rightarrow> response) \<Rightarrow> filesystem \<Rightarrow> request \<Rightarrow> response \<times> event list"

text \<open>
  \<^verbatim>\<open>BaseHTTPRequestHandler.send_response(code, message=None)\<close>: the status line, with the
  short message of the table when none is given, then the \<^verbatim>\<open>Server\<close> and \<^verbatim>\<open>Date\<close>
  headers.
\<close>

definition send_header :: "string \<Rightarrow> string \<Rightarrow> response \<Rightarrow> response" where
  "send_header keyword v r = r\<lparr>headers := headers r @ [(keyword, v)]\<rparr>"

definition send_response :: "environment \<Rightarrow> nat \<Rightarrow> string option \<Rightarrow> response" where
  "send_response env code message =
     send_header ''Date'' (date_time_string env)
       (send_header ''Server'' (version_string env)
          \<lparr>status = code,
           reason = (case message of
                       Some m \<Rightarrow> m
                     | None \<Rightarrow> (case responses env code of Some (short, _) \<Rightarrow> short | None \<Rightarrow> [])),
           headers = [],
           body = []\<rparr>)"

definition wfile_write :: "bytes \<Rightarrow> response \<Rightarrow> response" where
  "wfile_write data r = r\<lparr>body := body r @ data\<rparr>"

text \<open>
  The handler's own \<^verbatim>\<open>end_headers\<close> (lines 80 to 85): three CORS headers, then the
  inherited \<^verbatim>\<open>end_headers\<close>, which ends the header block and adds no header.
\<close>

definition cors_headers :: "(string \<times> string) list" where
  "cors_headers =
     [(''Access-Control-Allow-Origin'', ''*''),
      (''Access-Control-Allow-Methods'', ''GET, POST, OPTIONS''),
      (''Access-Control-Allow-Headers'', ''Content-Type, Range'')]"

definition end_headers :: "response \<Rightarrow> response" where
  "end_headers r =
     send_header ''Access-Control-Allow-Headers'' ''Content-Type, Range''
       (send_header ''Access-Control-Allow-Methods'' ''GET, POST, OPTIONS''
          (send_header ''Access-Control-Allow-Origin'' ''*'' r))"

text \<open>
  \<^verbatim>\<open>BaseHTTPRequestHandler.send_error(code, message)\<close>, for a request whose command is
  not \<^verbatim>\<open>HEAD\<close>: \<^verbatim>\<open>send_response\<close>, \<^verbatim>\<open>Connection: close\<close>, for the codes that carry a body
  the content type and length of the error page, \<^verbatim>\<open>end_headers\<close> (the handler's own), and
  the page.
\<close>

definition send_error :: "environment \<Rightarrow> nat \<Rightarrow> string \<Rightarrow> response" where
  "send_error env code message =
     (let (shortmsg, longmsg) =
            (case responses env code of Some sl \<Rightarrow> sl | None \<Rightarrow> (''???'', ''???''));
          explain = longmsg;
          r = send_header ''Connection'' ''close'' (send_response env code (Some message))
      in if 200 \<le> code \<and> code \<notin> {204, 205, 304}
         then let content = error_page env code message explain;
                  r = send_header ''Content-Type'' ''text/html;charset=utf-8'' r;
                  r = send_header ''Content-Length'' (py_str (int (length content))) r;
                  r = end_headers r
              in if content \<noteq> [] then wfile_write content r else r
         else end_headers r)"

section \<open>The handler\<close>

text \<open>
  Lines 50 to 52: the two bounds of the range. The unpacking of the split raises unless
  the list has two elements; \<^verbatim>\<open>int\<close> raises on a string that is no integer literal.
\<close>

definition parse_bounds :: "string \<Rightarrow> int \<Rightarrow> py_exception + (int \<times> int)" where
  "parse_bounds range_spec file_size =
     (case split_once CHR ''-'' range_spec of
        [start_str, end_str] \<Rightarrow>
          (case (if start_str \<noteq> [] then py_int start_str else Inr 0) of
             Inl e \<Rightarrow> Inl e
           | Inr start \<Rightarrow>
               (case (if end_str \<noteq> [] then py_int end_str else Inr (file_size - 1)) of
                  Inl e \<Rightarrow> Inl e
                | Inr end \<Rightarrow> Inr (start, end)))
      | _ \<Rightarrow> Inl UnpackError)"

text \<open>Lines 64 to 74: the partial content response.\<close>

definition partial_content :: "environment \<Rightarrow> bytes \<Rightarrow> int \<Rightarrow> int \<Rightarrow> int \<Rightarrow> response" where
  "partial_content env data start end file_size =
     wfile_write data
       (end_headers
          (send_header ''Access-Control-Allow-Headers'' ''Content-Type, Range''
          (send_header ''Access-Control-Allow-Methods'' ''GET, POST, OPTIONS''
          (send_header ''Access-Control-Allow-Origin'' ''*''
          (send_header ''Accept-Ranges'' ''bytes''
          (send_header ''Content-Range''
             (''bytes '' @ py_str start @ ''-'' @ py_str end @ ''/'' @ py_str file_size)
          (send_header ''Content-Length'' (py_str (int (length data)))
          (send_header ''Content-Type'' ''application/octet-stream''
          (send_response env 206 (Some ''Partial Content''))))))))))"

text \<open>Lines 76 to 78: the handler of \<^verbatim>\<open>except Exception as e\<close>.\<close>

definition internal_error :: "environment \<Rightarrow> event list \<Rightarrow> py_exception \<Rightarrow> response \<times> event list" where
  "internal_error env evs e =
     (send_error env 500 (''Internal server error: '' @ exception_str env e),
      evs @ [Console_print (''Error handling range request: '' @ exception_str env e)])"

text \<open>
  Lines 27 to 78. The result is the response and the events of the request. An exception
  raised in the body ends it where it is raised and is answered by \<open>internal_error\<close>.
\<close>

definition handle_range_request ::
    "environment \<Rightarrow> filesystem \<Rightarrow> request \<Rightarrow> response \<times> event list" where
  "handle_range_request env fs req =
     (case range_header req of
        None \<Rightarrow> internal_error env [] AttributeError
      | Some range_hdr \<Rightarrow>
          (if \<not> startswith range_hdr ''bytes=''
           then (send_error env 400 ''Invalid Range header'', [])
           else
             let file_path = translate_path env (path req) in
             if \<not> path_exists fs file_path
             then (send_error env 404 ''File not found'', [Path_exists file_path])
             else if \<not> path_isfile fs file_path
             then (send_error env 404 ''File not found'',
                   [Path_exists file_path, Path_isfile file_path])
             else
               let evs = [Path_exists file_path, Path_isfile file_path, Path_getsize file_path] in
               (case path_getsize fs file_path of
                  Inl e \<Rightarrow> internal_error env evs e
                | Inr file_size \<Rightarrow>
                    (let range_spec = drop 6 range_hdr in
                     if CHR ''-'' \<notin> set range_spec
                     then (send_error env 400 ''Invalid Range header'', evs)
                     else
                       (case parse_bounds range_spec file_size of
                          Inl e \<Rightarrow> internal_error env evs e
                        | Inr (start, end) \<Rightarrow>
                            (if start < 0 \<or> end \<ge> file_size \<or> start > end
                             then (send_error env 416 ''Requested Range Not Satisfiable'', evs)
                             else
                               (case open_rb fs file_path of
                                  Inl e \<Rightarrow> internal_error env (evs @ [File_open file_path]) e
                                | Inr content \<Rightarrow>
                                    (let data = seek_read content start (end - start + 1) in
                                     (partial_content env data start end file_size,
                                      evs @ [File_open file_path, File_seek start,
                                             File_read (end - start + 1), File_close])))))))))"

text \<open>
  Lines 18 to 25: a request with a \<^verbatim>\<open>Range\<close> header that is not empty goes to
  \<open>handle_range_request\<close>; \<^verbatim>\<open>None\<close> and the empty string are both false in Python and
  go to the inherited \<^verbatim>\<open>do_GET\<close>.
\<close>

definition do_GET :: "environment \<Rightarrow> filesystem \<Rightarrow> request \<Rightarrow> response \<times> event list" where
  "do_GET env fs req =
     (if (case range_header req of None \<Rightarrow> False | Some h \<Rightarrow> h \<noteq> [])
      then handle_range_request env fs req
      else super_do_GET env end_headers fs req)"

text \<open>Lines 87 to 90.\<close>

definition do_OPTIONS :: "environment \<Rightarrow> request \<Rightarrow> response" where
  "do_OPTIONS env req = end_headers (send_response env 200 None)"

section \<open>A concrete server for the examples\<close>

text \<open>
  A directory \<^verbatim>\<open>/srv\<close> with a file of eleven bytes, an empty file and a file of 600
  bytes; a library that reports a fixed version and date; and a stand-in for the inherited
  \<^verbatim>\<open>do_GET\<close> that serves a regular file whole.
\<close>

definition example_fs :: filesystem where
  "example_fs p =
     (if p = ''/srv'' then Some (Directory 4096)
      else if p = ''/srv/log.txt'' then Some (RegularFile ''hello world'')
      else if p = ''/srv/empty.txt'' then Some (RegularFile [])
      else if p = ''/srv/big.bin'' then Some (RegularFile (replicate 600 CHR ''a''))
      else None)"

definition example_responses :: "nat \<Rightarrow> (string \<times> string) option" where
  "example_responses code =
     (if code = 200 then Some (''OK'', ''Request fulfilled, document follows'')
      else if code = 206 then Some (''Partial Content'', ''Partial content follows'')
      else if code = 400 then Some (''Bad Request'', ''Bad request syntax or unsupported method'')
      else if code = 404 then Some (''Not Found'', ''Nothing matches the given URI'')
      else if code = 416 then Some (''Requested Range Not Satisfiable'', ''Cannot satisfy request range'')
      else if code = 500 then Some (''Internal Server Error'', ''Server got itself in trouble'')
      else None)"

definition example_super_do_GET ::
    "(response \<Rightarrow> response) \<Rightarrow> filesystem \<Rightarrow> request \<Rightarrow> response \<times> event list" where
  "example_super_do_GET finish fs req =
     (case fs (''/srv'' @ path req) of
        Some (RegularFile content) \<Rightarrow>
          (wfile_write content (finish \<lparr>status = 200, reason = ''OK'', headers = [], body = []\<rparr>),
           [File_open (''/srv'' @ path req)])
      | _ \<Rightarrow> (finish \<lparr>status = 404, reason = ''File not found'', headers = [], body = []\<rparr>, []))"

definition example_env :: environment where
  "example_env =
     \<lparr>version_string = ''SimpleHTTP/0.6 Python/3.11.10'',
      date_time_string = ''Wed, 04 Nov 2026 10:00:00 GMT'',
      translate_path = (\<lambda>p. ''/srv'' @ p),
      responses = example_responses,
      error_page = (\<lambda>code message explain. message @ '': '' @ explain),
      exception_str = (\<lambda>e. case e of InvalidLiteral s \<Rightarrow> ''invalid literal for int() with base 10''
                                 | DigitLimit n \<Rightarrow> ''Exceeds the limit for integer string conversion''
                                 | UnpackError \<Rightarrow> ''not enough values to unpack''
                                 | AttributeError \<Rightarrow> ''NoneType object has no attribute startswith''
                                 | OSError p \<Rightarrow> ''No such file or directory''),
      super_do_GET = example_super_do_GET\<rparr>"

section \<open>Facts about the response writer\<close>

lemma status_send_header [simp]: "status (send_header k v r) = status r"
  by (simp add: send_header_def)

lemma body_send_header [simp]: "body (send_header k v r) = body r"
  by (simp add: send_header_def)

lemma headers_send_header [simp]: "headers (send_header k v r) = headers r @ [(k, v)]"
  by (simp add: send_header_def)

lemma status_end_headers [simp]: "status (end_headers r) = status r"
  by (simp add: end_headers_def)

lemma body_end_headers [simp]: "body (end_headers r) = body r"
  by (simp add: end_headers_def)

lemma headers_end_headers [simp]: "headers (end_headers r) = headers r @ cors_headers"
  by (simp add: end_headers_def cors_headers_def)

lemma status_wfile_write [simp]: "status (wfile_write d r) = status r"
  by (simp add: wfile_write_def)

lemma headers_wfile_write [simp]: "headers (wfile_write d r) = headers r"
  by (simp add: wfile_write_def)

lemma body_wfile_write [simp]: "body (wfile_write d r) = body r @ d"
  by (simp add: wfile_write_def)

lemma status_send_response [simp]: "status (send_response env code m) = code"
  by (simp add: send_response_def)

lemma body_send_response [simp]: "body (send_response env code m) = []"
  by (simp add: send_response_def)

lemma headers_send_response [simp]:
  "headers (send_response env code m) =
     [(''Server'', version_string env), (''Date'', date_time_string env)]"
  by (simp add: send_response_def)

lemma status_send_error [simp]: "status (send_error env code m) = code"
  by (simp add: send_error_def Let_def split: prod.split)

lemma status_partial_content [simp]: "status (partial_content env d s e n) = 206"
  by (simp add: partial_content_def)

lemma body_partial_content [simp]: "body (partial_content env d s e n) = d"
  by (simp add: partial_content_def)

lemma headers_partial_content:
  "headers (partial_content env d s e n) =
     [(''Server'', version_string env), (''Date'', date_time_string env),
      (''Content-Type'', ''application/octet-stream''),
      (''Content-Length'', py_str (int (length d))),
      (''Content-Range'', ''bytes '' @ py_str s @ ''-'' @ py_str e @ ''/'' @ py_str n),
      (''Accept-Ranges'', ''bytes'')] @ cors_headers @ cors_headers"
  by (simp add: partial_content_def cors_headers_def)

lemma status_internal_error [simp]: "status (fst (internal_error env evs e)) = 500"
  by (simp add: internal_error_def)

lemma take_drop_nth: "m + n \<le> length xs \<Longrightarrow> take n (drop m xs) = map (\<lambda>i. xs ! i) [m ..< m + n]"
  by (simp add: list_eq_iff_nth_eq)

lemma seek_read_slice:
  assumes "0 \<le> s" "s \<le> e" "e < int (length content)"
  shows "seek_read content s (e - s + 1) = map (\<lambda>i. content ! i) [nat s ..< Suc (nat e)]"
proof -
  have "nat s + nat (e - s + 1) = Suc (nat e)" using assms by linarith
  moreover have "nat s + nat (e - s + 1) \<le> length content" using assms by linarith
  ultimately show ?thesis
    using take_drop_nth [of "nat s" "nat (e - s + 1)" content] by (simp add: seek_read_def)
qed

lemma length_seek_read:
  assumes "0 \<le> s" "s \<le> e" "e < int (length content)"
  shows "int (length (seek_read content s (e - s + 1))) = e - s + 1"
  using assms by (simp add: seek_read_def)

lemma handle_range_request_ok:
  assumes hdr: "range_header req = Some h" and pre: "startswith h ''bytes=''"
    and isf: "fs (translate_path env (path req)) = Some (RegularFile content)"
    and pb: "parse_bounds (drop 6 h) (int (length content)) = Inr (s, e)"
    and dash: "CHR ''-'' \<in> set (drop 6 h)"
    and ok: "0 \<le> s" "s \<le> e" "e < int (length content)"
  shows "handle_range_request env fs req =
           (partial_content env (seek_read content s (e - s + 1)) s e (int (length content)),
            [Path_exists (translate_path env (path req)), Path_isfile (translate_path env (path req)),
             Path_getsize (translate_path env (path req)), File_open (translate_path env (path req)),
             File_seek s, File_read (e - s + 1), File_close])"
  using assms
  by (simp add: handle_range_request_def path_exists_def path_isfile_def path_getsize_def
      open_rb_def Let_def)

lemma parse_bounds_dash: "parse_bounds spec n = Inr se \<Longrightarrow> CHR ''-'' \<in> set spec"
  by (auto simp add: parse_bounds_def split_once_def split: if_splits)

section \<open>Facts about the parsing of the range\<close>

lemma set_transform_to_ascii:
  "c \<in> set (transform_to_ascii s) \<Longrightarrow> c \<in> set s \<or> c = CHR '' '' \<or> c = CHR ''?''"
  by (induction s) (auto split: if_splits)

lemma dash_to_ascii: "CHR ''-'' \<notin> set s \<Longrightarrow> CHR ''-'' \<notin> set (to_ascii s)"
  by (auto simp add: to_ascii_def dest: set_transform_to_ascii)

lemma digits_value_foldl_nonneg:
  "0 \<le> acc \<Longrightarrow> \<forall>c \<in> set ds. py_isdigit c \<Longrightarrow>
     0 \<le> foldl (\<lambda>acc c. 10 * acc + digit_value c) acc ds"
  by (induction ds arbitrary: acc) (auto simp add: py_isdigit_def digit_value_def)

lemma digits_value_nonneg: "0 \<le> digits_value (filter py_isdigit lit)"
  by (simp add: digits_value_def digits_value_foldl_nonneg)

lemma sign_no_dash:
  "CHR ''-'' \<notin> set t \<Longrightarrow>
     \<exists>u. (case t of
            c # r \<Rightarrow> if c = CHR ''+'' then (1::int, r)
                     else if c = CHR ''-'' then (- 1, r)
                     else (1, t)
          | [] \<Rightarrow> (1, t)) = (1, u)"
  by (cases t) auto

lemma py_int_nonneg:
  assumes "CHR ''-'' \<notin> set s" and "py_int s = Inr n"
  shows "0 \<le> n"
proof -
  have "CHR ''-'' \<notin> set (dropWhile py_isspace (to_ascii s))"
    using dash_to_ascii [OF assms(1)] set_dropWhileD by fastforce
  from sign_no_dash [OF this] obtain u where
    sg: "(case dropWhile py_isspace (to_ascii s) of
            c # r \<Rightarrow> if c = CHR ''+'' then (1::int, r)
                     else if c = CHR ''-'' then (- 1, r)
                     else (1, dropWhile py_isspace (to_ascii s))
          | [] \<Rightarrow> (1, dropWhile py_isspace (to_ascii s))) = (1, u)"
    by blast
  show ?thesis
    using assms(2) unfolding py_int_def Let_def sg
    by (auto simp add: digits_value_nonneg split: if_splits)
qed

lemma split_once_dash:
  "CHR ''-'' \<in> set s \<Longrightarrow>
     split_once CHR ''-'' s = [takeWhile (\<lambda>c. c \<noteq> CHR ''-'') s, tl (dropWhile (\<lambda>c. c \<noteq> CHR ''-'') s)]"
  by (simp add: split_once_def)

lemma start_str_no_dash: "CHR ''-'' \<notin> set (hd (split_once CHR ''-'' s))"
  by (auto simp add: split_once_def dest: set_takeWhileD)

lemma parse_bounds_start_nonneg:
  assumes "parse_bounds spec n = Inr (s, e)"
  shows "0 \<le> s"
proof -
  have d: "CHR ''-'' \<in> set spec" using assms by (rule parse_bounds_dash)
  let ?a = "takeWhile (\<lambda>c. c \<noteq> CHR ''-'') spec"
  have nd: "CHR ''-'' \<notin> set ?a" by (auto dest: set_takeWhileD)
  have "(if ?a \<noteq> [] then py_int ?a else Inr 0) = Inr s"
    using assms d by (auto simp add: parse_bounds_def split_once_def split: sum.splits)
  then show ?thesis using py_int_nonneg [OF nd] by (auto split: if_splits)
qed

section \<open>Which responses the range handler can give\<close>

lemma path_isfile_iff: "path_isfile fs p = (\<exists>content. fs p = Some (RegularFile content))"
  by (auto simp add: path_isfile_def split: option.splits node.splits)

lemma handle_range_request_206:
  assumes "status (fst (handle_range_request env fs req)) = 206"
  shows "\<exists>d s e n. fst (handle_range_request env fs req) = partial_content env d s e n"
  using assms
  by (auto simp add: handle_range_request_def Let_def split: option.splits if_splits sum.splits prod.splits)

lemma handle_range_request_416:
  assumes "status (fst (handle_range_request env fs req)) = 416"
  shows "\<exists>h content s e.
           range_header req = Some h \<and> startswith h ''bytes='' \<and>
           fs (translate_path env (path req)) = Some (RegularFile content) \<and>
           parse_bounds (drop 6 h) (int (length content)) = Inr (s, e) \<and>
           (s < 0 \<or> int (length content) \<le> e \<or> e < s)"
  using assms
  by (auto simp add: handle_range_request_def Let_def path_isfile_iff path_getsize_def
      split: option.splits if_splits sum.splits prod.splits)

lemma reason_partial_content [simp]: "reason (partial_content env d s e n) = ''Partial Content''"
  by (simp add: partial_content_def end_headers_def send_header_def wfile_write_def send_response_def)

lemma response_eqI:
  "status r = a \<Longrightarrow> reason r = b \<Longrightarrow> headers r = c \<Longrightarrow> body r = d \<Longrightarrow>
     r = \<lparr>status = a, reason = b, headers = c, body = d\<rparr>"
  by (cases r) simp

lemma reason_send_error [simp]: "reason (send_error env code m) = m"
  by (simp add: send_error_def Let_def send_response_def send_header_def end_headers_def
      wfile_write_def split: prod.split)

lemma handle_range_request_no_dash:
  assumes "range_header req = Some h" and "startswith h ''bytes=''"
    and "fs (translate_path env (path req)) = Some (RegularFile content)"
    and "CHR ''-'' \<notin> set (drop 6 h)"
  shows "handle_range_request env fs req =
           (send_error env 400 ''Invalid Range header'',
            [Path_exists (translate_path env (path req)), Path_isfile (translate_path env (path req)),
             Path_getsize (translate_path env (path req))])"
  using assms
  by (simp add: handle_range_request_def path_exists_def path_isfile_def path_getsize_def Let_def)

lemma handle_range_request_unsatisfiable:
  assumes "range_header req = Some h" and "startswith h ''bytes=''"
    and "fs (translate_path env (path req)) = Some (RegularFile content)"
    and "parse_bounds (drop 6 h) (int (length content)) = Inr (s, e)"
    and "s < 0 \<or> int (length content) \<le> e \<or> e < s"
  shows "handle_range_request env fs req =
           (send_error env 416 ''Requested Range Not Satisfiable'',
            [Path_exists (translate_path env (path req)), Path_isfile (translate_path env (path req)),
             Path_getsize (translate_path env (path req))])"
proof -
  have "CHR ''-'' \<in> set (drop 6 h)" using assms(4) by (rule parse_bounds_dash)
  then show ?thesis
    using assms
    by (simp add: handle_range_request_def path_exists_def path_isfile_def path_getsize_def Let_def)
qed

lemma handle_range_request_not_file:
  assumes "range_header req = Some h" and "startswith h ''bytes=''"
    and "\<not> path_exists fs (translate_path env (path req)) \<or>
         \<not> path_isfile fs (translate_path env (path req))"
  shows "fst (handle_range_request env fs req) = send_error env 404 ''File not found''"
  using assms
  by (auto simp add: handle_range_request_def Let_def)

lemma py_int_0: "py_int ''0'' = Inr 0"
  by code_simp

lemma parse_bounds_from_0: "parse_bounds ''0-'' n = Inr (0, n - 1)"
  by (simp add: parse_bounds_def split_once_def py_int_0)

lemma parse_bounds_empty_start:
  "ks \<noteq> [] \<Longrightarrow> py_int ks = Inr k \<Longrightarrow> parse_bounds (CHR ''-'' # ks) n = Inr (0, k)"
  by (simp add: parse_bounds_def split_once_def)

lemma handle_range_request_parse_error:
  assumes "range_header req = Some h" and "startswith h ''bytes=''"
    and "fs (translate_path env (path req)) = Some (RegularFile content)"
    and "CHR ''-'' \<in> set (drop 6 h)"
    and "parse_bounds (drop 6 h) (int (length content)) = Inl e"
  shows "handle_range_request env fs req =
           internal_error env
             [Path_exists (translate_path env (path req)), Path_isfile (translate_path env (path req)),
              Path_getsize (translate_path env (path req))] e"
    and "status (fst (handle_range_request env fs req)) = 500"
  using assms
  by (simp_all add: handle_range_request_def path_exists_def path_isfile_def path_getsize_def
      Let_def)

section \<open>The claims\<close>

subsection \<open>C1: a valid range is answered with exactly its bytes\<close>

text \<open>
  C1. Let the request carry a \<^verbatim>\<open>Range\<close> header that starts with \<^verbatim>\<open>bytes=\<close>, let its path
  resolve to a regular file, and let the range specifier parse, after defaulting, to
  \<open>(start, end)\<close> with \<open>0 \<le> start \<le> end \<le> file_size - 1\<close>. Then the response of
  \<open>handle_range_request\<close> has status 206, its body is the bytes of the file at the
  offsets \<open>start\<close> to \<open>end\<close> inclusive, its \<^verbatim>\<open>Content-Length\<close> header is
  \<open>end - start + 1\<close> in decimal, and its \<^verbatim>\<open>Content-Range\<close> header is
  \<^verbatim>\<open>bytes <start>-<end>/<file_size>\<close>. The theorem gives the whole response.
\<close>

theorem valid_range_gives_partial_content:
  assumes "range_header req = Some h" and "startswith h ''bytes=''"
    and "fs (translate_path env (path req)) = Some (RegularFile content)"
    and "parse_bounds (drop 6 h) (int (length content)) = Inr (start, end)"
    and "0 \<le> start" and "start \<le> end" and "end \<le> int (length content) - 1"
  shows "fst (handle_range_request env fs req) =
           \<lparr>status = 206,
            reason = ''Partial Content'',
            headers =
              [(''Server'', version_string env),
               (''Date'', date_time_string env),
               (''Content-Type'', ''application/octet-stream''),
               (''Content-Length'', py_str (end - start + 1)),
               (''Content-Range'',
                  ''bytes '' @ py_str start @ ''-'' @ py_str end @ ''/'' @ py_str (int (length content))),
               (''Accept-Ranges'', ''bytes''),
               (''Access-Control-Allow-Origin'', ''*''),
               (''Access-Control-Allow-Methods'', ''GET, POST, OPTIONS''),
               (''Access-Control-Allow-Headers'', ''Content-Type, Range''),
               (''Access-Control-Allow-Origin'', ''*''),
               (''Access-Control-Allow-Methods'', ''GET, POST, OPTIONS''),
               (''Access-Control-Allow-Headers'', ''Content-Type, Range'')],
            body = map (\<lambda>i. content ! i) [nat start ..< Suc (nat end)]\<rparr>"
proof -
  have lt: "end < int (length content)" using assms(7) by simp
  have dash: "CHR ''-'' \<in> set (drop 6 h)" using assms(4) by (rule parse_bounds_dash)
  have "fst (handle_range_request env fs req) =
          partial_content env (seek_read content start (end - start + 1)) start end
            (int (length content))"
    using handle_range_request_ok [where fs = fs and env = env, OF assms(1-4) dash assms(5,6) lt] by simp
  moreover have "seek_read content start (end - start + 1) =
                   map (\<lambda>i. content ! i) [nat start ..< Suc (nat end)]"
    using assms(5,6) lt by (rule seek_read_slice)
  moreover have "int (length (seek_read content start (end - start + 1))) = end - start + 1"
    using assms(5,6) lt by (rule length_seek_read)
  ultimately show ?thesis
    by (intro response_eqI) (simp_all add: headers_partial_content cors_headers_def)
qed

text \<open>
  The theorem at the request \<^verbatim>\<open>Range: bytes=2-5\<close> for the eleven bytes \<^verbatim>\<open>hello world\<close>.
\<close>

theorem valid_range_gives_partial_content_witness:
  "range_header \<lparr>path = ''/log.txt'', range_header = Some ''bytes=2-5''\<rparr> = Some ''bytes=2-5'' \<and>
   startswith ''bytes=2-5'' ''bytes='' \<and>
   example_fs (translate_path example_env (path \<lparr>path = ''/log.txt'', range_header = Some ''bytes=2-5''\<rparr>))
     = Some (RegularFile ''hello world'') \<and>
   parse_bounds (drop 6 ''bytes=2-5'') (int (length ''hello world'')) = Inr (2, 5) \<and>
   (0::int) \<le> 2 \<and> (2::int) \<le> 5 \<and> 5 \<le> int (length ''hello world'') - 1 \<and>
   fst (handle_range_request example_env example_fs
          \<lparr>path = ''/log.txt'', range_header = Some ''bytes=2-5''\<rparr>) =
     \<lparr>status = 206,
      reason = ''Partial Content'',
      headers =
        [(''Server'', ''SimpleHTTP/0.6 Python/3.11.10''),
         (''Date'', ''Wed, 04 Nov 2026 10:00:00 GMT''),
         (''Content-Type'', ''application/octet-stream''),
         (''Content-Length'', ''4''),
         (''Content-Range'', ''bytes 2-5/11''),
         (''Accept-Ranges'', ''bytes''),
         (''Access-Control-Allow-Origin'', ''*''),
         (''Access-Control-Allow-Methods'', ''GET, POST, OPTIONS''),
         (''Access-Control-Allow-Headers'', ''Content-Type, Range''),
         (''Access-Control-Allow-Origin'', ''*''),
         (''Access-Control-Allow-Methods'', ''GET, POST, OPTIONS''),
         (''Access-Control-Allow-Headers'', ''Content-Type, Range'')],
      body = ''llo ''\<rparr>"
proof -
  have h1: "range_header \<lparr>path = ''/log.txt'', range_header = Some ''bytes=2-5''\<rparr> = Some ''bytes=2-5''"
    by simp
  have h2: "startswith ''bytes=2-5'' ''bytes=''"
    by (simp add: startswith_def)
  have h3: "example_fs (translate_path example_env (path \<lparr>path = ''/log.txt'', range_header = Some ''bytes=2-5''\<rparr>))
              = Some (RegularFile ''hello world'')"
    by (simp add: example_fs_def example_env_def)
  have h4: "parse_bounds (drop 6 ''bytes=2-5'') (int (length ''hello world'')) = Inr (2, 5)"
    by code_simp
  have h5: "(0::int) \<le> 2" and h6: "(2::int) \<le> 5" and h7: "5 \<le> int (length ''hello world'') - 1"
    by simp_all
  have ev: "py_str (5 - 2 + 1) = ''4'' \<and> py_str 2 = ''2'' \<and> py_str 5 = ''5'' \<and>
            py_str (int (length ''hello world'')) = ''11'' \<and>
            map (\<lambda>i. ''hello world'' ! i) [nat 2 ..< Suc (nat 5)] = ''llo ''"
    by code_simp
  have c: "fst (handle_range_request example_env example_fs
                  \<lparr>path = ''/log.txt'', range_header = Some ''bytes=2-5''\<rparr>) =
     \<lparr>status = 206,
      reason = ''Partial Content'',
      headers =
        [(''Server'', ''SimpleHTTP/0.6 Python/3.11.10''),
         (''Date'', ''Wed, 04 Nov 2026 10:00:00 GMT''),
         (''Content-Type'', ''application/octet-stream''),
         (''Content-Length'', ''4''),
         (''Content-Range'', ''bytes 2-5/11''),
         (''Accept-Ranges'', ''bytes''),
         (''Access-Control-Allow-Origin'', ''*''),
         (''Access-Control-Allow-Methods'', ''GET, POST, OPTIONS''),
         (''Access-Control-Allow-Headers'', ''Content-Type, Range''),
         (''Access-Control-Allow-Origin'', ''*''),
         (''Access-Control-Allow-Methods'', ''GET, POST, OPTIONS''),
         (''Access-Control-Allow-Headers'', ''Content-Type, Range'')],
      body = ''llo ''\<rparr>"
    unfolding valid_range_gives_partial_content
        [where fs = example_fs and env = example_env, OF h1 h2 h3 h4 h5 h6 h7]
    using ev by (simp add: example_env_def)
  show ?thesis
    by (intro conjI h1 h2 h3 h4 h5 h6 h7 c)
qed

subsection \<open>C2: a malformed range specifier\<close>

text \<open>
  C2 says that a range specifier with a start or an end that is no integer literal is
  answered with 400 and never with 500. The handler answers it with 500: \<^verbatim>\<open>int\<close> at
  lines 51 and 52 is not guarded, its \<^verbatim>\<open>ValueError\<close> reaches the \<^verbatim>\<open>except Exception\<close> of
  lines 76 to 78, and that sends 500. The header without the prefix (lines 32 to 34) and
  the specifier without a \<^verbatim>\<open>-\<close> (lines 46 to 48) are both answered with 400. The theorem
  runs the handler on an existing file of eleven bytes: \<^verbatim>\<open>bytes=abc-5\<close>, \<^verbatim>\<open>bytes=2-x\<close>
  and \<^verbatim>\<open>bytes=abc-\<close> give 500, while \<^verbatim>\<open>bytes=5\<close> and \<^verbatim>\<open>items=0-10\<close> give 400.
\<close>

theorem non_integer_bound_gives_500:
  "example_fs (translate_path example_env (path \<lparr>path = ''/log.txt'', range_header = Some ''bytes=abc-5''\<rparr>))
     = Some (RegularFile ''hello world'') \<and>
   startswith ''bytes=abc-5'' ''bytes='' \<and>
   split_once CHR ''-'' (drop 6 ''bytes=abc-5'') = [''abc'', ''5''] \<and>
   py_int ''abc'' = Inl (InvalidLiteral ''abc'') \<and>
   status (fst (handle_range_request example_env example_fs
                  \<lparr>path = ''/log.txt'', range_header = Some ''bytes=abc-5''\<rparr>)) = 500 \<and>
   status (fst (do_GET example_env example_fs
                  \<lparr>path = ''/log.txt'', range_header = Some ''bytes=abc-5''\<rparr>)) = 500 \<and>
   split_once CHR ''-'' (drop 6 ''bytes=2-x'') = [''2'', ''x''] \<and>
   py_int ''x'' = Inl (InvalidLiteral ''x'') \<and>
   status (fst (handle_range_request example_env example_fs
                  \<lparr>path = ''/log.txt'', range_header = Some ''bytes=2-x''\<rparr>)) = 500 \<and>
   status (fst (handle_range_request example_env example_fs
                  \<lparr>path = ''/log.txt'', range_header = Some ''bytes=abc-''\<rparr>)) = 500 \<and>
   status (fst (handle_range_request example_env example_fs
                  \<lparr>path = ''/log.txt'', range_header = Some ''bytes=5''\<rparr>)) = 400 \<and>
   status (fst (handle_range_request example_env example_fs
                  \<lparr>path = ''/log.txt'', range_header = Some ''items=0-10''\<rparr>)) = 400"
  by code_simp

subsection \<open>C3: a range outside the file\<close>

text \<open>
  C3. When after defaulting \<open>start < 0\<close>, or \<open>end \<ge> file_size\<close>, or \<open>start > end\<close>,
  the handler answers 416, and the file is neither opened nor read: the only file system
  calls of the request are \<^verbatim>\<open>os.path.exists\<close>, \<^verbatim>\<open>os.path.isfile\<close> and
  \<^verbatim>\<open>os.path.getsize\<close>.
\<close>

theorem unsatisfiable_range_gives_416_without_read:
  assumes "range_header req = Some h" and "startswith h ''bytes=''"
    and "fs (translate_path env (path req)) = Some (RegularFile content)"
    and "parse_bounds (drop 6 h) (int (length content)) = Inr (start, end)"
    and "start < 0 \<or> int (length content) \<le> end \<or> end < start"
  shows "status (fst (handle_range_request env fs req)) = 416 \<and>
         fst (handle_range_request env fs req) =
           send_error env 416 ''Requested Range Not Satisfiable'' \<and>
         snd (handle_range_request env fs req) =
           [Path_exists (translate_path env (path req)),
            Path_isfile (translate_path env (path req)),
            Path_getsize (translate_path env (path req))] \<and>
         \<not> list_ex reads_file (snd (handle_range_request env fs req))"
  using handle_range_request_unsatisfiable [where fs = fs and env = env, OF assms]
  by (simp add: reads_file_def)

text \<open>
  The theorem at \<^verbatim>\<open>Range: bytes=11-21\<close> for a file of eleven bytes, a range that starts
  at the file's size.
\<close>

theorem unsatisfiable_range_gives_416_without_read_witness:
  "range_header \<lparr>path = ''/log.txt'', range_header = Some ''bytes=11-21''\<rparr> = Some ''bytes=11-21'' \<and>
   startswith ''bytes=11-21'' ''bytes='' \<and>
   example_fs (translate_path example_env (path \<lparr>path = ''/log.txt'', range_header = Some ''bytes=11-21''\<rparr>))
     = Some (RegularFile ''hello world'') \<and>
   parse_bounds (drop 6 ''bytes=11-21'') (int (length ''hello world'')) = Inr (11, 21) \<and>
   ((11::int) < 0 \<or> int (length ''hello world'') \<le> 21 \<or> (21::int) < 11) \<and>
   status (fst (handle_range_request example_env example_fs
                  \<lparr>path = ''/log.txt'', range_header = Some ''bytes=11-21''\<rparr>)) = 416 \<and>
   snd (handle_range_request example_env example_fs
          \<lparr>path = ''/log.txt'', range_header = Some ''bytes=11-21''\<rparr>) =
     [Path_exists ''/srv/log.txt'', Path_isfile ''/srv/log.txt'', Path_getsize ''/srv/log.txt'']"
proof -
  have h1: "range_header \<lparr>path = ''/log.txt'', range_header = Some ''bytes=11-21''\<rparr> = Some ''bytes=11-21''"
    by simp
  have h2: "startswith ''bytes=11-21'' ''bytes=''"
    by (simp add: startswith_def)
  have h3: "example_fs (translate_path example_env (path \<lparr>path = ''/log.txt'', range_header = Some ''bytes=11-21''\<rparr>))
              = Some (RegularFile ''hello world'')"
    by (simp add: example_fs_def example_env_def)
  have h4: "parse_bounds (drop 6 ''bytes=11-21'') (int (length ''hello world'')) = Inr (11, 21)"
    by code_simp
  have h5: "(11::int) < 0 \<or> int (length ''hello world'') \<le> 21 \<or> (21::int) < 11"
    by simp
  note t = unsatisfiable_range_gives_416_without_read
             [where fs = example_fs and env = example_env, OF h1 h2 h3 h4 h5]
  have c1: "status (fst (handle_range_request example_env example_fs
                  \<lparr>path = ''/log.txt'', range_header = Some ''bytes=11-21''\<rparr>)) = 416"
    using t by blast
  have c2: "snd (handle_range_request example_env example_fs
          \<lparr>path = ''/log.txt'', range_header = Some ''bytes=11-21''\<rparr>) =
     [Path_exists ''/srv/log.txt'', Path_isfile ''/srv/log.txt'', Path_getsize ''/srv/log.txt'']"
    using t by (simp add: example_env_def)
  show ?thesis
    by (intro conjI h1 h2 h3 h4 h5 c1 c2)
qed

subsection \<open>C4: a range request for a path that is no regular file\<close>

text \<open>
  C4 as stated, that every request with a \<^verbatim>\<open>Range\<close> header for a path that does not
  exist is answered with 404 whether or not the header is well-formed, does not hold: the
  prefix of the header is checked before the path is resolved. \<^verbatim>\<open>Range: items=0-10\<close> on
  a path that does not exist is answered with 400.
\<close>

theorem missing_file_counterexample:
  "range_header \<lparr>path = ''/missing'', range_header = Some ''items=0-10''\<rparr> = Some ''items=0-10'' \<and>
   example_fs (translate_path example_env (path \<lparr>path = ''/missing'', range_header = Some ''items=0-10''\<rparr>))
     = None \<and>
   status (fst (handle_range_request example_env example_fs
                  \<lparr>path = ''/missing'', range_header = Some ''items=0-10''\<rparr>)) = 400 \<and>
   status (fst (do_GET example_env example_fs
                  \<lparr>path = ''/missing'', range_header = Some ''items=0-10''\<rparr>)) = 400"
  by code_simp

text \<open>
  C4, amended. For every request whose \<^verbatim>\<open>Range\<close> header starts with \<^verbatim>\<open>bytes=\<close> and whose
  path resolves to nothing or to something that is no regular file, the answer is 404 with
  the message \<^verbatim>\<open>File not found\<close>, whatever follows the prefix; \<open>do_GET\<close> hands such a
  request to \<open>handle_range_request\<close>.
\<close>

theorem missing_file_gives_404:
  assumes "range_header req = Some h" and "startswith h ''bytes=''"
    and "\<not> path_exists fs (translate_path env (path req)) \<or>
         \<not> path_isfile fs (translate_path env (path req))"
  shows "status (fst (handle_range_request env fs req)) = 404 \<and>
         reason (fst (handle_range_request env fs req)) = ''File not found'' \<and>
         fst (handle_range_request env fs req) = send_error env 404 ''File not found'' \<and>
         do_GET env fs req = handle_range_request env fs req"
proof -
  have "h \<noteq> []" using assms(2) by (auto simp add: startswith_def)
  then have "do_GET env fs req = handle_range_request env fs req"
    using assms(1) by (simp add: do_GET_def)
  then show ?thesis
    using handle_range_request_not_file [where fs = fs and env = env, OF assms] by simp
qed

text \<open>The theorem at \<^verbatim>\<open>Range: bytes=zz\<close>, a malformed specifier, for a missing path.\<close>

theorem missing_file_gives_404_witness:
  "range_header \<lparr>path = ''/missing'', range_header = Some ''bytes=zz''\<rparr> = Some ''bytes=zz'' \<and>
   startswith ''bytes=zz'' ''bytes='' \<and>
   \<not> path_exists example_fs
       (translate_path example_env (path \<lparr>path = ''/missing'', range_header = Some ''bytes=zz''\<rparr>)) \<and>
   status (fst (handle_range_request example_env example_fs
                  \<lparr>path = ''/missing'', range_header = Some ''bytes=zz''\<rparr>)) = 404"
proof -
  have h1: "range_header \<lparr>path = ''/missing'', range_header = Some ''bytes=zz''\<rparr> = Some ''bytes=zz''"
    by simp
  have h2: "startswith ''bytes=zz'' ''bytes=''"
    by (simp add: startswith_def)
  have h3: "\<not> path_exists example_fs
        (translate_path example_env (path \<lparr>path = ''/missing'', range_header = Some ''bytes=zz''\<rparr>))"
    by (simp add: path_exists_def example_fs_def example_env_def)
  have c: "status (fst (handle_range_request example_env example_fs
                  \<lparr>path = ''/missing'', range_header = Some ''bytes=zz''\<rparr>)) = 404"
    using missing_file_gives_404
            [where fs = example_fs and env = example_env, OF h1 h2 disjI1 [OF h3]]
    by blast
  show ?thesis
    by (intro conjI h1 h2 h3 c)
qed

subsection \<open>C5: the open-ended range from offset 0\<close>

text \<open>
  C5 as stated, for every file of size \<open>N\<close>, does not hold for the empty file: there
  \<open>end\<close> defaults to \<open>- 1\<close>, so \<open>start > end\<close>, and the answer is 416.
\<close>

theorem whole_file_counterexample:
  "example_fs (translate_path example_env (path \<lparr>path = ''/empty.txt'', range_header = Some ''bytes=0-''\<rparr>))
     = Some (RegularFile []) \<and>
   status (fst (handle_range_request example_env example_fs
                  \<lparr>path = ''/empty.txt'', range_header = Some ''bytes=0-''\<rparr>)) = 416"
  by code_simp

text \<open>
  C5, amended. For every file of size \<open>N \<ge> 1\<close>, a request with \<^verbatim>\<open>Range: bytes=0-\<close> is
  answered with 206, the whole content of the file as body, and the one \<^verbatim>\<open>Content-Range\<close>
  header \<^verbatim>\<open>bytes 0-<N-1>/<N>\<close>.
\<close>

theorem open_ended_range_gives_whole_file:
  assumes "range_header req = Some ''bytes=0-''"
    and "fs (translate_path env (path req)) = Some (RegularFile content)"
    and "content \<noteq> []"
  shows "status (fst (handle_range_request env fs req)) = 206 \<and>
         body (fst (handle_range_request env fs req)) = content \<and>
         filter (\<lambda>kv. fst kv = ''Content-Range'') (headers (fst (handle_range_request env fs req))) =
           [(''Content-Range'',
             ''bytes 0-'' @ py_str (int (length content) - 1) @ ''/'' @ py_str (int (length content)))]"
proof -
  have pre: "startswith ''bytes=0-'' ''bytes=''" by (simp add: startswith_def)
  have pb: "parse_bounds (drop 6 ''bytes=0-'') (int (length content)) =
              Inr (0, int (length content) - 1)"
    by (simp add: parse_bounds_from_0)
  have dash: "CHR ''-'' \<in> set (drop 6 ''bytes=0-'')" by simp
  have pos: "0 \<le> int (length content) - 1" using assms(3) by (cases content) simp_all
  have "fst (handle_range_request env fs req) =
          partial_content env (seek_read content 0 (int (length content) - 1 - 0 + 1)) 0
            (int (length content) - 1) (int (length content))"
    using handle_range_request_ok [where fs = fs and env = env, OF assms(1) pre assms(2) pb dash _ pos]
    by simp
  moreover have "seek_read content 0 (int (length content) - 1 - 0 + 1) = content"
    by (simp add: seek_read_def)
  moreover have "py_str 0 = ''0''" by code_simp
  ultimately show ?thesis
    by (simp add: headers_partial_content cors_headers_def)
qed

text \<open>The theorem for the eleven bytes \<^verbatim>\<open>hello world\<close>.\<close>

theorem open_ended_range_gives_whole_file_witness:
  "range_header \<lparr>path = ''/log.txt'', range_header = Some ''bytes=0-''\<rparr> = Some ''bytes=0-'' \<and>
   example_fs (translate_path example_env (path \<lparr>path = ''/log.txt'', range_header = Some ''bytes=0-''\<rparr>))
     = Some (RegularFile ''hello world'') \<and>
   ''hello world'' \<noteq> [] \<and>
   status (fst (handle_range_request example_env example_fs
                  \<lparr>path = ''/log.txt'', range_header = Some ''bytes=0-''\<rparr>)) = 206 \<and>
   body (fst (handle_range_request example_env example_fs
                  \<lparr>path = ''/log.txt'', range_header = Some ''bytes=0-''\<rparr>)) = ''hello world'' \<and>
   filter (\<lambda>kv. fst kv = ''Content-Range'')
     (headers (fst (handle_range_request example_env example_fs
                  \<lparr>path = ''/log.txt'', range_header = Some ''bytes=0-''\<rparr>))) =
     [(''Content-Range'', ''bytes 0-10/11'')]"
proof -
  have h1: "range_header \<lparr>path = ''/log.txt'', range_header = Some ''bytes=0-''\<rparr> = Some ''bytes=0-''"
    by simp
  have h2: "example_fs (translate_path example_env (path \<lparr>path = ''/log.txt'', range_header = Some ''bytes=0-''\<rparr>))
              = Some (RegularFile ''hello world'')"
    by (simp add: example_fs_def example_env_def)
  have h3: "''hello world'' \<noteq> []"
    by simp
  have ev: "''bytes 0-'' @ py_str (int (length ''hello world'') - 1) @ ''/'' @ py_str (int (length ''hello world''))
              = ''bytes 0-10/11''"
    by code_simp
  note t = open_ended_range_gives_whole_file
             [where fs = example_fs and env = example_env, OF h1 h2 h3]
  have c1: "status (fst (handle_range_request example_env example_fs
                  \<lparr>path = ''/log.txt'', range_header = Some ''bytes=0-''\<rparr>)) = 206"
    using t by blast
  have c2: "body (fst (handle_range_request example_env example_fs
                  \<lparr>path = ''/log.txt'', range_header = Some ''bytes=0-''\<rparr>)) = ''hello world''"
    using t by blast
  have c3: "filter (\<lambda>kv. fst kv = ''Content-Range'')
     (headers (fst (handle_range_request example_env example_fs
                  \<lparr>path = ''/log.txt'', range_header = Some ''bytes=0-''\<rparr>))) =
     [(''Content-Range'', ''bytes 0-10/11'')]"
    using t ev by (simp only:)
  show ?thesis
    by (intro conjI h1 h2 h3 c1 c2 c3)
qed

subsection \<open>C6: an empty start is offset 0, not a suffix length\<close>

text \<open>
  C6. A header \<^verbatim>\<open>bytes=-<k>\<close> is parsed with \<open>start = 0\<close> and \<open>end = k\<close>. On a regular
  file of more than \<open>k\<close> bytes, \<open>k \<ge> 0\<close>, the answer is 206 with the \<open>k + 1\<close> bytes at
  the offsets 0 to \<open>k\<close> and \<^verbatim>\<open>Content-Range: bytes 0-<k>/<file_size>\<close>; it is not the
  last \<open>k\<close> bytes of the file. For \<^verbatim>\<open>bytes=-500\<close> on a file of more than 500 bytes that
  is the slice of 501 bytes from offset 0.
\<close>

theorem empty_start_is_offset_zero:
  assumes "range_header req = Some (''bytes=-'' @ ks)"
    and "ks \<noteq> []" and "py_int ks = Inr k"
    and "fs (translate_path env (path req)) = Some (RegularFile content)"
    and "0 \<le> k" and "k < int (length content)"
  shows "parse_bounds (CHR ''-'' # ks) (int (length content)) = Inr (0, k) \<and>
         status (fst (handle_range_request env fs req)) = 206 \<and>
         body (fst (handle_range_request env fs req)) = take (nat k + 1) content \<and>
         length (body (fst (handle_range_request env fs req))) = nat k + 1 \<and>
         filter (\<lambda>kv. fst kv = ''Content-Range'') (headers (fst (handle_range_request env fs req))) =
           [(''Content-Range'', ''bytes 0-'' @ py_str k @ ''/'' @ py_str (int (length content)))] \<and>
         body (fst (handle_range_request env fs req)) \<noteq> drop (length content - nat k) content"
proof -
  have pre: "startswith (''bytes=-'' @ ks) ''bytes=''" by (simp add: startswith_def)
  have pb0: "parse_bounds (CHR ''-'' # ks) (int (length content)) = Inr (0, k)"
    using assms(2,3) by (rule parse_bounds_empty_start)
  then have pb: "parse_bounds (drop 6 (''bytes=-'' @ ks)) (int (length content)) = Inr (0, k)"
    by simp
  have dash: "CHR ''-'' \<in> set (drop 6 (''bytes=-'' @ ks))" by simp
  have "fst (handle_range_request env fs req) =
          partial_content env (seek_read content 0 (k - 0 + 1)) 0 k (int (length content))"
    using handle_range_request_ok
            [where fs = fs and env = env, OF assms(1) pre assms(4) pb dash _ assms(5,6)]
    by simp
  moreover have sr: "seek_read content 0 (k - 0 + 1) = take (nat k + 1) content"
    using assms(5) by (simp add: seek_read_def nat_add_distrib)
  moreover have "py_str 0 = ''0''" by code_simp
  moreover have len: "length (take (nat k + 1) content) = nat k + 1"
    using assms(5,6) by simp
  moreover have "length (drop (length content - nat k) content) = nat k"
    using assms(5,6) by simp
  then have "take (nat k + 1) content \<noteq> drop (length content - nat k) content"
    using len by (metis Suc_eq_plus1 n_not_Suc_n)
  ultimately show ?thesis
    using pb0 by (simp add: headers_partial_content cors_headers_def)
qed

text \<open>The theorem at \<^verbatim>\<open>Range: bytes=-500\<close> for a file of 600 bytes.\<close>

theorem empty_start_is_offset_zero_witness:
  "range_header \<lparr>path = ''/big.bin'', range_header = Some ''bytes=-500''\<rparr> = Some (''bytes=-'' @ ''500'') \<and>
   ''500'' \<noteq> [] \<and> py_int ''500'' = Inr 500 \<and>
   example_fs (translate_path example_env (path \<lparr>path = ''/big.bin'', range_header = Some ''bytes=-500''\<rparr>))
     = Some (RegularFile (replicate 600 CHR ''a'')) \<and>
   (0::int) \<le> 500 \<and> 500 < int (length (replicate 600 CHR ''a'')) \<and>
   status (fst (handle_range_request example_env example_fs
                  \<lparr>path = ''/big.bin'', range_header = Some ''bytes=-500''\<rparr>)) = 206 \<and>
   body (fst (handle_range_request example_env example_fs
                  \<lparr>path = ''/big.bin'', range_header = Some ''bytes=-500''\<rparr>)) = replicate 501 CHR ''a'' \<and>
   filter (\<lambda>kv. fst kv = ''Content-Range'')
     (headers (fst (handle_range_request example_env example_fs
                  \<lparr>path = ''/big.bin'', range_header = Some ''bytes=-500''\<rparr>))) =
     [(''Content-Range'', ''bytes 0-500/600'')]"
proof -
  have h1: "range_header \<lparr>path = ''/big.bin'', range_header = Some ''bytes=-500''\<rparr> = Some (''bytes=-'' @ ''500'')"
    by simp
  have h2: "''500'' \<noteq> []" by simp
  have h3: "py_int ''500'' = Inr 500" by code_simp
  have h4: "example_fs (translate_path example_env (path \<lparr>path = ''/big.bin'', range_header = Some ''bytes=-500''\<rparr>))
     = Some (RegularFile (replicate 600 CHR ''a''))"
    by (simp add: example_fs_def example_env_def)
  have h5: "(0::int) \<le> 500" by simp
  have h6: "500 < int (length (replicate 600 CHR ''a''))" by simp
  have ev: "''bytes 0-'' @ py_str 500 @ ''/'' @ py_str 600 = ''bytes 0-500/600''"
    by code_simp
  note t = empty_start_is_offset_zero
             [where fs = example_fs and env = example_env, OF h1 h2 h3 h4 h5 h6]
  have c1: "status (fst (handle_range_request example_env example_fs
                  \<lparr>path = ''/big.bin'', range_header = Some ''bytes=-500''\<rparr>)) = 206"
    using t by blast
  have c2: "body (fst (handle_range_request example_env example_fs
                  \<lparr>path = ''/big.bin'', range_header = Some ''bytes=-500''\<rparr>)) = replicate 501 CHR ''a''"
    using t by simp
  have c3: "filter (\<lambda>kv. fst kv = ''Content-Range'')
     (headers (fst (handle_range_request example_env example_fs
                  \<lparr>path = ''/big.bin'', range_header = Some ''bytes=-500''\<rparr>))) =
     [(''Content-Range'', ''bytes 0-500/600'')]"
    using t ev by simp
  show ?thesis
    by (intro conjI h1 h2 h3 h4 h5 h6 c1 c2 c3)
qed

subsection \<open>C7: the answer to OPTIONS\<close>

text \<open>
  C7 as stated, that the response has exactly the three CORS headers and no other header,
  does not hold: \<open>do_OPTIONS\<close> calls the library's \<^verbatim>\<open>send_response\<close>, which always adds
  a \<^verbatim>\<open>Server\<close> and a \<^verbatim>\<open>Date\<close> header.
\<close>

theorem options_headers_counterexample:
  "headers (do_OPTIONS example_env \<lparr>path = ''/any/path'', range_header = None\<rparr>) =
     [(''Server'', ''SimpleHTTP/0.6 Python/3.11.10''),
      (''Date'', ''Wed, 04 Nov 2026 10:00:00 GMT''),
      (''Access-Control-Allow-Origin'', ''*''),
      (''Access-Control-Allow-Methods'', ''GET, POST, OPTIONS''),
      (''Access-Control-Allow-Headers'', ''Content-Type, Range'')] \<and>
   headers (do_OPTIONS example_env \<lparr>path = ''/any/path'', range_header = None\<rparr>) \<noteq>
     [(''Access-Control-Allow-Origin'', ''*''),
      (''Access-Control-Allow-Methods'', ''GET, POST, OPTIONS''),
      (''Access-Control-Allow-Headers'', ''Content-Type, Range'')]"
  by (simp add: do_OPTIONS_def example_env_def cors_headers_def)

text \<open>
  C7, amended. For every \<^verbatim>\<open>OPTIONS\<close> request, whatever its path, the response has status
  200, an empty body, and five headers: the \<^verbatim>\<open>Server\<close> and \<^verbatim>\<open>Date\<close> headers of the
  library's \<^verbatim>\<open>send_response\<close>, then the three CORS headers, and no others.
\<close>

theorem options_response:
  "status (do_OPTIONS env req) = 200 \<and>
   body (do_OPTIONS env req) = [] \<and>
   headers (do_OPTIONS env req) =
     [(''Server'', version_string env),
      (''Date'', date_time_string env),
      (''Access-Control-Allow-Origin'', ''*''),
      (''Access-Control-Allow-Methods'', ''GET, POST, OPTIONS''),
      (''Access-Control-Allow-Headers'', ''Content-Type, Range'')]"
  by (simp add: do_OPTIONS_def cors_headers_def)

text \<open>The theorem at one request.\<close>

theorem options_response_witness:
  "status (do_OPTIONS example_env \<lparr>path = ''/any/path'', range_header = None\<rparr>) = 200 \<and>
   body (do_OPTIONS example_env \<lparr>path = ''/any/path'', range_header = None\<rparr>) = [] \<and>
   map fst (headers (do_OPTIONS example_env \<lparr>path = ''/any/path'', range_header = None\<rparr>)) =
     [''Server'', ''Date'', ''Access-Control-Allow-Origin'', ''Access-Control-Allow-Methods'',
      ''Access-Control-Allow-Headers'']"
  using options_response [of example_env "\<lparr>path = ''/any/path'', range_header = None\<rparr>"]
  by simp

subsection \<open>C8: the CORS headers of a partial content response\<close>

text \<open>
  C8. Every 206 response of \<open>handle_range_request\<close> carries each of the three CORS
  headers twice: the handler sends them itself (lines 70 to 72) and then calls its own
  \<open>end_headers\<close> (line 73), which sends them again. The CORS headers of the response,
  in order, are the three followed by the same three.
\<close>

theorem partial_content_repeats_cors_headers:
  assumes "status (fst (handle_range_request env fs req)) = 206"
  shows "filter (\<lambda>kv. fst kv \<in> {''Access-Control-Allow-Origin'', ''Access-Control-Allow-Methods'',
                                 ''Access-Control-Allow-Headers''})
           (headers (fst (handle_range_request env fs req))) =
           [(''Access-Control-Allow-Origin'', ''*''),
            (''Access-Control-Allow-Methods'', ''GET, POST, OPTIONS''),
            (''Access-Control-Allow-Headers'', ''Content-Type, Range''),
            (''Access-Control-Allow-Origin'', ''*''),
            (''Access-Control-Allow-Methods'', ''GET, POST, OPTIONS''),
            (''Access-Control-Allow-Headers'', ''Content-Type, Range'')] \<and>
         count_list (map fst (headers (fst (handle_range_request env fs req))))
           ''Access-Control-Allow-Origin'' = 2 \<and>
         count_list (map fst (headers (fst (handle_range_request env fs req))))
           ''Access-Control-Allow-Methods'' = 2 \<and>
         count_list (map fst (headers (fst (handle_range_request env fs req))))
           ''Access-Control-Allow-Headers'' = 2"
proof -
  from handle_range_request_206 [OF assms] obtain d s e n where
    "fst (handle_range_request env fs req) = partial_content env d s e n"
    by blast
  then show ?thesis
    by (simp add: headers_partial_content cors_headers_def)
qed

text \<open>The theorem at \<^verbatim>\<open>Range: bytes=2-5\<close> for a file of eleven bytes.\<close>

theorem partial_content_repeats_cors_headers_witness:
  "status (fst (handle_range_request example_env example_fs
                  \<lparr>path = ''/log.txt'', range_header = Some ''bytes=2-5''\<rparr>)) = 206 \<and>
   count_list (map fst (headers (fst (handle_range_request example_env example_fs
                  \<lparr>path = ''/log.txt'', range_header = Some ''bytes=2-5''\<rparr>))))
     ''Access-Control-Allow-Origin'' = 2 \<and>
   count_list (map fst (headers (fst (handle_range_request example_env example_fs
                  \<lparr>path = ''/log.txt'', range_header = Some ''bytes=2-5''\<rparr>))))
     ''Access-Control-Allow-Methods'' = 2 \<and>
   count_list (map fst (headers (fst (handle_range_request example_env example_fs
                  \<lparr>path = ''/log.txt'', range_header = Some ''bytes=2-5''\<rparr>))))
     ''Access-Control-Allow-Headers'' = 2"
proof -
  have h: "status (fst (handle_range_request example_env example_fs
                  \<lparr>path = ''/log.txt'', range_header = Some ''bytes=2-5''\<rparr>)) = 206"
    by code_simp
  show ?thesis
    using h partial_content_repeats_cors_headers [OF h] by blast
qed

subsection \<open>C9: the test \<open>start < 0\<close> never decides\<close>

text \<open>
  C9. The string before the first \<^verbatim>\<open>-\<close> of the range specifier contains no \<^verbatim>\<open>-\<close>;
  whenever the bounds parse, \<open>start\<close> is not negative; and whenever the handler
  answers 416, the request has a header and a regular file whose parsed bounds have
  \<open>start \<ge> 0\<close> and \<open>end \<ge> file_size\<close> or \<open>start > end\<close>.
\<close>

theorem negative_start_unreachable:
  "CHR ''-'' \<notin> set (hd (split_once CHR ''-'' range_spec)) \<and>
   (parse_bounds range_spec file_size = Inr (start, end) \<longrightarrow> 0 \<le> start) \<and>
   (status (fst (handle_range_request env fs req)) = 416 \<longrightarrow>
      (\<exists>h content s e.
         range_header req = Some h \<and>
         fs (translate_path env (path req)) = Some (RegularFile content) \<and>
         parse_bounds (drop 6 h) (int (length content)) = Inr (s, e) \<and>
         0 \<le> s \<and> (int (length content) \<le> e \<or> e < s)))"
proof (intro conjI impI)
  show "CHR ''-'' \<notin> set (hd (split_once CHR ''-'' range_spec))"
    by (rule start_str_no_dash)
next
  assume "parse_bounds range_spec file_size = Inr (start, end)"
  then show "0 \<le> start" by (rule parse_bounds_start_nonneg)
next
  assume "status (fst (handle_range_request env fs req)) = 416"
  from handle_range_request_416 [OF this] obtain h content s e where
    a: "range_header req = Some h"
       "fs (translate_path env (path req)) = Some (RegularFile content)"
       "parse_bounds (drop 6 h) (int (length content)) = Inr (s, e)"
       "s < 0 \<or> int (length content) \<le> e \<or> e < s"
    by blast
  from a(3) have "0 \<le> s" by (rule parse_bounds_start_nonneg)
  with a show "\<exists>h content s e.
         range_header req = Some h \<and>
         fs (translate_path env (path req)) = Some (RegularFile content) \<and>
         parse_bounds (drop 6 h) (int (length content)) = Inr (s, e) \<and>
         0 \<le> s \<and> (int (length content) \<le> e \<or> e < s)"
    by (intro exI [of _ h] exI [of _ content] exI [of _ s] exI [of _ e]) auto
qed

text \<open>
  The theorem at \<^verbatim>\<open>Range: bytes=3-20\<close> for a file of eleven bytes, answered with 416
  because \<open>end \<ge> file_size\<close>.
\<close>

theorem negative_start_unreachable_witness:
  "parse_bounds ''3-20'' 11 = Inr (3, 20) \<and> (0::int) \<le> 3 \<and>
   status (fst (handle_range_request example_env example_fs
                  \<lparr>path = ''/log.txt'', range_header = Some ''bytes=3-20''\<rparr>)) = 416 \<and>
   (\<exists>h content s e.
      range_header \<lparr>path = ''/log.txt'', range_header = Some ''bytes=3-20''\<rparr> = Some h \<and>
      example_fs (translate_path example_env (path \<lparr>path = ''/log.txt'', range_header = Some ''bytes=3-20''\<rparr>))
        = Some (RegularFile content) \<and>
      parse_bounds (drop 6 h) (int (length content)) = Inr (s, e) \<and>
      0 \<le> s \<and> (int (length content) \<le> e \<or> e < s))"
proof -
  have h1: "parse_bounds ''3-20'' 11 = Inr (3, 20)"
    by code_simp
  have h2: "status (fst (handle_range_request example_env example_fs
                  \<lparr>path = ''/log.txt'', range_header = Some ''bytes=3-20''\<rparr>)) = 416"
    by code_simp
  note t = negative_start_unreachable
             [where range_spec = "''3-20''" and file_size = 11 and start = 3
                and fs = example_fs and env = example_env
                and req = "\<lparr>path = ''/log.txt'', range_header = Some ''bytes=3-20''\<rparr>"]
  have c1: "(0::int) \<le> 3" using t h1 by blast
  have c2: "\<exists>h content s e.
      range_header \<lparr>path = ''/log.txt'', range_header = Some ''bytes=3-20''\<rparr> = Some h \<and>
      example_fs (translate_path example_env (path \<lparr>path = ''/log.txt'', range_header = Some ''bytes=3-20''\<rparr>))
        = Some (RegularFile content) \<and>
      parse_bounds (drop 6 h) (int (length content)) = Inr (s, e) \<and>
      0 \<le> s \<and> (int (length content) \<le> e \<or> e < s)"
    using t h2 by blast
  show ?thesis
    by (intro conjI h1 c1 h2 c2)
qed

subsection \<open>C10: an empty \<^verbatim>\<open>Range\<close> header\<close>

text \<open>
  C10. A request whose \<^verbatim>\<open>Range\<close> header is the empty string is not handed to
  \<open>handle_range_request\<close>, which would answer it with 400: \<open>do_GET\<close> hands it to the
  inherited \<^verbatim>\<open>do_GET\<close>, as it does the request without the header, and where the
  inherited \<^verbatim>\<open>do_GET\<close> does not look at the header the two answers are the same.
\<close>

theorem empty_range_header_is_served_statically:
  assumes "range_header req = Some []"
  shows "do_GET env fs req = super_do_GET env end_headers fs req \<and>
         do_GET env fs (req\<lparr>range_header := None\<rparr>) =
           super_do_GET env end_headers fs (req\<lparr>range_header := None\<rparr>) \<and>
         (super_do_GET env end_headers fs req =
            super_do_GET env end_headers fs (req\<lparr>range_header := None\<rparr>) \<longrightarrow>
          do_GET env fs req = do_GET env fs (req\<lparr>range_header := None\<rparr>)) \<and>
         status (fst (handle_range_request env fs req)) = 400"
  using assms by (simp add: do_GET_def handle_range_request_def startswith_def)

text \<open>
  The theorem at a request for an existing file, with a stand-in for the inherited
  \<^verbatim>\<open>do_GET\<close> that serves the file whole.
\<close>

theorem empty_range_header_is_served_statically_witness:
  "range_header \<lparr>path = ''/log.txt'', range_header = Some []\<rparr> = Some [] \<and>
   do_GET example_env example_fs \<lparr>path = ''/log.txt'', range_header = Some []\<rparr> =
     (\<lparr>status = 200, reason = ''OK'',
       headers = [(''Access-Control-Allow-Origin'', ''*''),
                  (''Access-Control-Allow-Methods'', ''GET, POST, OPTIONS''),
                  (''Access-Control-Allow-Headers'', ''Content-Type, Range'')],
       body = ''hello world''\<rparr>,
      [File_open ''/srv/log.txt'']) \<and>
   do_GET example_env example_fs \<lparr>path = ''/log.txt'', range_header = Some []\<rparr> =
     do_GET example_env example_fs \<lparr>path = ''/log.txt'', range_header = None\<rparr>"
proof -
  have h: "range_header \<lparr>path = ''/log.txt'', range_header = Some []\<rparr> = Some []"
    by simp
  have ev: "super_do_GET example_env end_headers example_fs \<lparr>path = ''/log.txt'', range_header = Some []\<rparr> =
     (\<lparr>status = 200, reason = ''OK'',
       headers = [(''Access-Control-Allow-Origin'', ''*''),
                  (''Access-Control-Allow-Methods'', ''GET, POST, OPTIONS''),
                  (''Access-Control-Allow-Headers'', ''Content-Type, Range'')],
       body = ''hello world''\<rparr>,
      [File_open ''/srv/log.txt''])"
    by code_simp
  have same: "super_do_GET example_env end_headers example_fs \<lparr>path = ''/log.txt'', range_header = Some []\<rparr> =
     super_do_GET example_env end_headers example_fs
       (\<lparr>path = ''/log.txt'', range_header = Some []\<rparr>\<lparr>range_header := None\<rparr>)"
    by code_simp
  note t = empty_range_header_is_served_statically
             [where fs = example_fs and env = example_env, OF h]
  have c1: "do_GET example_env example_fs \<lparr>path = ''/log.txt'', range_header = Some []\<rparr> =
     (\<lparr>status = 200, reason = ''OK'',
       headers = [(''Access-Control-Allow-Origin'', ''*''),
                  (''Access-Control-Allow-Methods'', ''GET, POST, OPTIONS''),
                  (''Access-Control-Allow-Headers'', ''Content-Type, Range'')],
       body = ''hello world''\<rparr>,
      [File_open ''/srv/log.txt''])"
    using t ev by (simp only:)
  have c2: "do_GET example_env example_fs \<lparr>path = ''/log.txt'', range_header = Some []\<rparr> =
     do_GET example_env example_fs \<lparr>path = ''/log.txt'', range_header = None\<rparr>"
    using t same by simp
  show ?thesis
    by (intro conjI h c1 c2)
qed

end
